theory Spec2Isabelle
  imports Main
begin

section \<open>JavaScript values and strings\<close>

text \<open>
  The codec functions of \<^verbatim>\<open>baconian.js\<close> accept any JavaScript value and test it with
  \<^verbatim>\<open>!x\<close>, \<^verbatim>\<open>typeof x\<close> and \<^verbatim>\<open>Array.isArray(x)\<close>, so their argument is a
  value of the datatype below. Arrays are dense (no holes). Numbers are kept as integers: the
  codec only looks at their type and truthiness.

  A string is a \<^typ>\<open>string\<close>, one \<^typ>\<open>char\<close> per code unit. \<^verbatim>\<open>toUpperCase\<close> is
  modelled on the ASCII range, where it maps \<^verbatim>\<open>a..z\<close> to \<^verbatim>\<open>A..Z\<close> and keeps every other
  character. Outside ASCII the function of the language may also change the length of a
  string, but it produces an \<^verbatim>\<open>A\<close> or a \<^verbatim>\<open>B\<close> from the four ASCII characters
  \<^verbatim>\<open>a A b B\<close> only, and that is all the codec asks of it: a string with any other
  character is rejected by \<^verbatim>\<open>decodeGroup\<close> and \<^verbatim>\<open>isValidGroup\<close> here as it is there.
  \<^verbatim>\<open>normalizePlaintext\<close> uppercases ASCII letters only.
\<close>

datatype jsval =
    JSUndefined
  | JSNull
  | JSBoolean bool
  | JSNumber int
  | JSString string
  | JSArray "jsval list"
  | JSObject

fun truthy :: "jsval \<Rightarrow> bool" where
  "truthy JSUndefined = False"
| "truthy JSNull = False"
| "truthy (JSBoolean b) = b"
| "truthy (JSNumber n) = (n \<noteq> 0)"
| "truthy (JSString s) = (s \<noteq> [])"
| "truthy (JSArray xs) = True"
| "truthy JSObject = True"

fun typeof :: "jsval \<Rightarrow> string" where
  "typeof JSUndefined = ''undefined''"
| "typeof JSNull = ''object''"
| "typeof (JSBoolean b) = ''boolean''"
| "typeof (JSNumber n) = ''number''"
| "typeof (JSString s) = ''string''"
| "typeof (JSArray xs) = ''object''"
| "typeof JSObject = ''object''"

fun isArray :: "jsval \<Rightarrow> bool" where
  "isArray (JSArray xs) = True"
| "isArray v = False"

definition toUpperCase_char :: "char \<Rightarrow> char" where
  "toUpperCase_char c =
     (if (97::nat) \<le> of_char c \<and> (of_char c :: nat) \<le> 122
      then char_of ((of_char c :: nat) - 32) else c)"

definition toUpperCase :: "string \<Rightarrow> string" where
  "toUpperCase s = map toUpperCase_char s"

text \<open>\<^verbatim>\<open>String.fromCharCode(n)\<close>: the one-character string with code \<open>n\<close>.\<close>

definition fromCharCode :: "int \<Rightarrow> string" where
  "fromCharCode n = [char_of n]"

text \<open>
  \<^verbatim>\<open>parseInt(s, 2)\<close>: the value of the longest prefix of binary digits, \<open>None\<close> (NaN) when
  that prefix is empty. The whitespace and sign that \<^verbatim>\<open>parseInt\<close> skips before the digits
  are left out: the only caller passes a string built from the digits \<^verbatim>\<open>0\<close> and \<^verbatim>\<open>1\<close>.
\<close>

definition binary_digit :: "char \<Rightarrow> bool" where
  "binary_digit c = (c = CHR ''0'' \<or> c = CHR ''1'')"

definition parseInt_radix2 :: "string \<Rightarrow> int option" where
  "parseInt_radix2 s =
     (let digits = takeWhile binary_digit s
      in if digits = [] then None
         else Some (foldl (\<lambda>n c. 2 * n + (if c = CHR ''1'' then 1 else 0)) 0 digits))"

text \<open>\<^verbatim>\<open>xs.join(sep)\<close> on an array of strings.\<close>

fun join :: "string \<Rightarrow> string list \<Rightarrow> string" where
  "join sep [] = []"
| "join sep [x] = x"
| "join sep (x # y # ys) = x @ sep @ join sep (y # ys)"

section \<open>The cipher codec (baconian.js)\<close>

text \<open>
  The loop of \<^verbatim>\<open>decodeGroup\<close> over \<^verbatim>\<open>normalized[0..4]\<close>, with its accumulator
  \<^verbatim>\<open>binaryStr\<close>; \<open>None\<close> is the early \<^verbatim>\<open>return '?'\<close> at a character that is neither
  \<^verbatim>\<open>A\<close> nor \<^verbatim>\<open>B\<close>.
\<close>

fun ab_loop :: "string \<Rightarrow> string \<Rightarrow> string option" where
  "ab_loop [] binaryStr = Some binaryStr"
| "ab_loop (char # rest) binaryStr =
     (if char = CHR ''A'' then ab_loop rest (binaryStr @ ''0'')
      else if char = CHR ''B'' then ab_loop rest (binaryStr @ ''1'')
      else None)"

definition decodeGroup :: "jsval \<Rightarrow> string" where
  "decodeGroup abGroup =
     (if \<not> truthy abGroup \<or> typeof abGroup \<noteq> ''string'' then ''?''
      else case abGroup of
        JSString s \<Rightarrow>
          (let normalized = toUpperCase s in
           if length normalized \<noteq> 5 then ''?''
           else case ab_loop (take 5 normalized) [] of
             None \<Rightarrow> ''?''
           | Some binaryStr \<Rightarrow>
               (case parseInt_radix2 binaryStr of
                  None \<Rightarrow> fromCharCode 0
                | Some index \<Rightarrow>
                    if index < 0 \<or> index > 25 then ''?''
                    else fromCharCode (65 + index)))
      | _ \<Rightarrow> ''?'')"

text \<open>
  In \<^verbatim>\<open>decodeGroup\<close> the case of a NaN index (\<^verbatim>\<open>String.fromCharCode(65 + NaN)\<close>, the
  character with code 0) and the last case (a value that passed the \<^verbatim>\<open>typeof\<close> test and is
  no string) are never reached; they are written out so that the definition is total.
\<close>

definition decodeGroups :: "jsval \<Rightarrow> string" where
  "decodeGroups groups =
     (if \<not> isArray groups then []
      else case groups of
        JSArray gs \<Rightarrow> join [] (map decodeGroup gs)
      | _ \<Rightarrow> [])"

text \<open>
  The character class \<^verbatim>\<open>[^a-zA-Z]\<close> and \<^verbatim>\<open>s.replace(/[^a-zA-Z]/g, '')\<close>, which replaces
  every character of the class by the empty string.
\<close>

definition ascii_letter :: "char \<Rightarrow> bool" where
  "ascii_letter c =
     (((97::nat) \<le> of_char c \<and> (of_char c :: nat) \<le> 122) \<or>
      ((65::nat) \<le> of_char c \<and> (of_char c :: nat) \<le> 90))"

definition replace_all_class :: "(char \<Rightarrow> bool) \<Rightarrow> string \<Rightarrow> string \<Rightarrow> string" where
  "replace_all_class cls rep s = concat (map (\<lambda>c. if cls c then rep else [c]) s)"

definition normalizePlaintext :: "jsval \<Rightarrow> string" where
  "normalizePlaintext input =
     (if \<not> truthy input \<or> typeof input \<noteq> ''string'' then []
      else case input of
        JSString s \<Rightarrow> toUpperCase (replace_all_class (\<lambda>c. \<not> ascii_letter c) [] s)
      | _ \<Rightarrow> [])"

fun valid_loop :: "string \<Rightarrow> bool" where
  "valid_loop [] = True"
| "valid_loop (c # rest) =
     (let char = toUpperCase_char c in
      if char \<noteq> CHR ''A'' \<and> char \<noteq> CHR ''B'' then False else valid_loop rest)"

definition isValidGroup :: "jsval \<Rightarrow> bool" where
  "isValidGroup grp =
     (if \<not> truthy grp \<or> typeof grp \<noteq> ''string'' then False
      else case grp of
        JSString s \<Rightarrow> if length s \<noteq> 5 then False else valid_loop (take 5 s)
      | _ \<Rightarrow> False)"

section \<open>The puzzle controller (app.js)\<close>

text \<open>
  The controller works on the page. A chip card carries what the code reads and writes of it:
  whether its class list holds \<^verbatim>\<open>revealed\<close>, its \<^verbatim>\<open>aria-pressed\<close> and
  \<^verbatim>\<open>data-group\<close> attributes (\<open>None\<close> when absent), and the text of its
  \<^verbatim>\<open>.chip-back\<close> child (\<open>None\<close> when it has none). An element carries its value, class
  name, text, \<^verbatim>\<open>style.display\<close> and its \<^verbatim>\<open>.chip-card\<close> descendants in document order.
\<close>

record chip_card =
  revealed :: bool
  aria_pressed :: "string option"
  data_group :: "string option"
  chip_back :: "string option"

record element =
  el_value :: jsval
  className :: string
  textContent :: string
  style_display :: string
  chip_cards :: "chip_card list"

text \<open>
  A registered listener is a target, an event type and the closure to run; a closure is kept
  as the call it makes. A card is named by its container's id and its position there (the code
  never adds or removes elements). A pending \<^verbatim>\<open>setTimeout\<close> callback is its delay and the
  card it will reveal.
\<close>

datatype target = Document | Element string | Card string nat

datatype handler =
    ClickToggleChip string nat
  | KeydownToggleChip string nat
  | ClickRevealAll string
  | KeydownRevealAll string
  | ClickCheckGuess string string
  | KeypressCheckGuess string string
  | ClickShowHint string
  | InputClearFeedback string

record page =
  elements :: "string \<rightharpoonup> element"
  prefers_reduced_motion :: bool
  timers :: "(nat \<times> string \<times> nat) list"
  listeners :: "(target \<times> string \<times> handler) list"
  console :: "string list"

definition card_at :: "page \<Rightarrow> string \<Rightarrow> nat \<Rightarrow> chip_card option" where
  "card_at s cid i =
     (case elements s cid of
        None \<Rightarrow> None
      | Some el \<Rightarrow> if i < length (chip_cards el) then Some (chip_cards el ! i) else None)"

definition chip_revealed :: "page \<Rightarrow> string \<Rightarrow> nat \<Rightarrow> bool" where
  "chip_revealed s cid i = (case card_at s cid i of None \<Rightarrow> False | Some chipCard \<Rightarrow> revealed chipCard)"

text \<open>Writing through a reference to a card; a reference to no card of the page writes nothing.\<close>

definition update_card :: "string \<Rightarrow> nat \<Rightarrow> (chip_card \<Rightarrow> chip_card) \<Rightarrow> page \<Rightarrow> page" where
  "update_card cid i f s =
     (case elements s cid of
        None \<Rightarrow> s
      | Some el \<Rightarrow>
          if i < length (chip_cards el)
          then s\<lparr>elements := (elements s)(cid \<mapsto> el\<lparr>chip_cards := (chip_cards el)[i := f (chip_cards el ! i)]\<rparr>)\<rparr>
          else s)"

text \<open>
  \<^verbatim>\<open>toggleChip\<close>: \<^verbatim>\<open>classList.toggle('revealed')\<close> flips the class and returns whether it is
  now present; \<^verbatim>\<open>setAttribute\<close> stores that boolean as a string. The argument is \<open>None\<close>
  for a null card.
\<close>

definition toggle_card :: "chip_card \<Rightarrow> chip_card" where
  "toggle_card chipCard =
     (let isRevealed = \<not> revealed chipCard
      in chipCard\<lparr>revealed := isRevealed,
              aria_pressed := Some (if isRevealed then ''true'' else ''false'')\<rparr>)"

definition toggleChip :: "(string \<times> nat) option \<Rightarrow> page \<Rightarrow> page" where
  "toggleChip chipRef s =
     (case chipRef of
        None \<Rightarrow> s
      | Some (cid, i) \<Rightarrow> update_card cid i toggle_card s)"

text \<open>
  \<^verbatim>\<open>revealAllChips\<close> changes no card itself: for every card that is not revealed it schedules
  a callback, after \<open>index * 60\<close> milliseconds, or 0 under reduced motion. The callback adds the
  class and sets \<^verbatim>\<open>aria-pressed\<close>. \<open>run_timers\<close> lets every pending callback fire, in the
  order of the delays (callbacks of equal delay in the order they were scheduled).
\<close>

definition revealAllChips :: "string \<Rightarrow> page \<Rightarrow> page" where
  "revealAllChips containerId s =
     (case elements s containerId of
        None \<Rightarrow> s
      | Some container \<Rightarrow>
          (let chipCards = chip_cards container;
               prefersReducedMotion = prefers_reduced_motion s
           in s\<lparr>timers := timers s @
                  concat (map (\<lambda>index.
                      if \<not> revealed (chipCards ! index)
                      then [(if prefersReducedMotion then 0 else index * 60, containerId, index)]
                      else [])
                    [0..<length chipCards])\<rparr>))"

definition reveal_card :: "chip_card \<Rightarrow> chip_card" where
  "reveal_card chipCard = chipCard\<lparr>revealed := True, aria_pressed := Some ''true''\<rparr>"

definition run_timer :: "nat \<times> string \<times> nat \<Rightarrow> page \<Rightarrow> page" where
  "run_timer t s = (case t of (delay, cid, i) \<Rightarrow> update_card cid i reveal_card s)"

definition run_timers :: "page \<Rightarrow> page" where
  "run_timers s = foldl (\<lambda>s' t. run_timer t s') (s\<lparr>timers := []\<rparr>) (sort_key fst (timers s))"

definition getDecodedText :: "string \<Rightarrow> page \<Rightarrow> string" where
  "getDecodedText containerId s =
     (case elements s containerId of
        None \<Rightarrow> []
      | Some container \<Rightarrow>
          foldl (\<lambda>plaintext chipCard.
                   case data_group chipCard of
                     None \<Rightarrow> plaintext
                   | Some encoded \<Rightarrow>
                       if encoded \<noteq> [] then plaintext @ decodeGroup (JSString encoded)
                       else plaintext)
                [] (chip_cards container))"

text \<open>
  The two feedback messages start with a symbol outside ASCII, kept here as the bytes the
  source file has there.
\<close>

definition check_mark :: string where
  "check_mark = [CHR 0xC3, CHR 0xA2, CHR 0xC5, CHR 0x93, CHR 0xE2, CHR 0x80, CHR 0x9C]"

definition cross_mark :: string where
  "cross_mark = [CHR 0xC3, CHR 0xA2, CHR 0xC5, CHR 0x93, CHR 0xE2, CHR 0x80, CHR 0x94]"

definition correct_message :: "string \<Rightarrow> string" where
  "correct_message expectedPlaintext =
     check_mark @ '' Correct! The answer is '' @ [CHR 0x22] @ expectedPlaintext @ [CHR 0x22]
       @ ''. Well done!''"

definition incorrect_message :: string where
  "incorrect_message = cross_mark @ '' That'' @ [CHR 0x27] @ ''s not quite right. Try again!''"

definition set_feedback :: "string \<Rightarrow> string \<Rightarrow> string \<Rightarrow> page \<Rightarrow> page" where
  "set_feedback fid cls txt s =
     (case elements s fid of
        None \<Rightarrow> s
      | Some feedbackArea \<Rightarrow>
          s\<lparr>elements := (elements s)(fid \<mapsto> feedbackArea\<lparr>className := cls, textContent := txt\<rparr>)\<rparr>)"

text \<open>\<^verbatim>\<open>if (hintButton) hintButton.style.display = d\<close>\<close>

definition set_display :: "string \<Rightarrow> string \<Rightarrow> page \<Rightarrow> page" where
  "set_display hid d s =
     (case elements s hid of
        None \<Rightarrow> s
      | Some hintButton \<Rightarrow> s\<lparr>elements := (elements s)(hid \<mapsto> hintButton\<lparr>style_display := d\<rparr>)\<rparr>)"

definition checkGuess :: "string \<Rightarrow> string \<Rightarrow> page \<Rightarrow> page" where
  "checkGuess layerName expectedPlaintext s =
     (case elements s (layerName @ ''Guess'') of
        None \<Rightarrow> s
      | Some guessInput \<Rightarrow>
         (case elements s (layerName @ ''Feedback'') of
            None \<Rightarrow> s
          | Some feedbackArea \<Rightarrow>
             (let userGuess = normalizePlaintext (el_value guessInput);
                  normalizedExpected = normalizePlaintext (JSString expectedPlaintext)
              in if userGuess = normalizedExpected then
                   set_display (layerName @ ''Hint'') ''none''
                     (set_feedback (layerName @ ''Feedback'') ''feedback-area success''
                        (correct_message expectedPlaintext) s)
                 else if userGuess = [] then
                   set_feedback (layerName @ ''Feedback'') ''feedback-area hidden'' [] s
                 else
                   set_display (layerName @ ''Hint'') ''inline-block''
                     (set_feedback (layerName @ ''Feedback'') ''feedback-area error''
                        incorrect_message s))))"

definition showHint :: "string \<Rightarrow> page \<Rightarrow> page" where
  "showHint layerName s =
     (case elements s (layerName @ ''Chips'') of
        None \<Rightarrow> s
      | Some chipContainer \<Rightarrow>
          (case chip_cards chipContainer of
             [] \<Rightarrow> s
           | firstCard # others \<Rightarrow>
               if \<not> revealed firstCard then toggleChip (Some (layerName @ ''Chips'', 0)) s else s))"

text \<open>
  \<^verbatim>\<open>initializePuzzle\<close>: without the chip container it warns on the console and returns.
  Otherwise it writes the decoded letter into the back of every card that has a non-empty
  \<^verbatim>\<open>data-group\<close> and a back, then registers the listeners, each under the guard the
  source has for it.
\<close>

definition populate_back :: "chip_card \<Rightarrow> chip_card" where
  "populate_back chipCard =
     (case data_group chipCard of
        None \<Rightarrow> chipCard
      | Some encoded \<Rightarrow>
          if encoded \<noteq> [] then
            (case chip_back chipCard of
               None \<Rightarrow> chipCard
             | Some backFace \<Rightarrow> chipCard\<lparr>chip_back := Some (decodeGroup (JSString encoded))\<rparr>)
          else chipCard)"

definition addEventListeners :: "(target \<times> string \<times> handler) list \<Rightarrow> page \<Rightarrow> page" where
  "addEventListeners ls s = s\<lparr>listeners := listeners s @ ls\<rparr>"

definition present :: "page \<Rightarrow> string \<Rightarrow> bool" where
  "present s eid = (elements s eid \<noteq> None)"

definition initializePuzzle :: "string \<Rightarrow> string \<Rightarrow> page \<Rightarrow> page" where
  "initializePuzzle layerName expectedPlaintext s =
     (let chipsId = layerName @ ''Chips'';
          revealAllId = layerName @ ''RevealAll'';
          checkGuessId = layerName @ ''CheckGuess'';
          hintId = layerName @ ''Hint'';
          guessId = layerName @ ''Guess''
      in case elements s chipsId of
        None \<Rightarrow> s\<lparr>console := console s @ [''Puzzle container not found for '' @ layerName]\<rparr>
      | Some chipsContainer \<Rightarrow>
          (let n = length (chip_cards chipsContainer);
               s1 = s\<lparr>elements := (elements s)(chipsId \<mapsto>
                       chipsContainer\<lparr>chip_cards := map populate_back (chip_cards chipsContainer)\<rparr>)\<rparr>;
               s2 = addEventListeners
                      (concat (map (\<lambda>i. [(Card chipsId i, ''click'', ClickToggleChip chipsId i),
                                          (Card chipsId i, ''keydown'', KeydownToggleChip chipsId i)])
                                   [0..<n])) s1;
               s3 = (if present s revealAllId
                     then addEventListeners
                            [(Element revealAllId, ''click'', ClickRevealAll chipsId),
                             (Document, ''keydown'', KeydownRevealAll chipsId)] s2
                     else s2);
               s4 = (if present s checkGuessId
                     then addEventListeners
                            ((Element checkGuessId, ''click'', ClickCheckGuess layerName expectedPlaintext) #
                             (if present s guessId
                              then [(Element guessId, ''keypress'',
                                     KeypressCheckGuess layerName expectedPlaintext)]
                              else [])) s3
                     else s3);
               s5 = (if present s hintId
                     then addEventListeners [(Element hintId, ''click'', ClickShowHint layerName)] s4
                     else s4);
               s6 = (if present s guessId
                     then addEventListeners [(Element guessId, ''input'', InputClearFeedback layerName)] s5
                     else s5)
           in s6))"

text \<open>What the claims observe of the feedback region of a puzzle.\<close>

definition feedback_class :: "string \<Rightarrow> page \<Rightarrow> string option" where
  "feedback_class layerName s = map_option className (elements s (layerName @ ''Feedback''))"

definition feedback_text :: "string \<Rightarrow> page \<Rightarrow> string option" where
  "feedback_text layerName s = map_option textContent (elements s (layerName @ ''Feedback''))"

definition guess_of :: "string \<Rightarrow> page \<Rightarrow> jsval option" where
  "guess_of layerName s = map_option el_value (elements s (layerName @ ''Guess''))"

section \<open>The data model of the specification\<close>

text \<open>
  These definitions follow the words of the specification, to be compared with the code: the
  alphabet, the bit a symbol stands for (A = 0, B = 1, case-insensitive), the value of a group
  read as a 5-bit number with the most significant bit first, and the shape of a cipher group
  (exactly five symbols, each A or B after uppercasing).
\<close>

definition alphabet :: string where
  "alphabet = ''ABCDEFGHIJKLMNOPQRSTUVWXYZ''"

definition ab_bit :: "char \<Rightarrow> nat" where
  "ab_bit c = (if toUpperCase_char c = CHR ''B'' then 1 else 0)"

definition group_value :: "string \<Rightarrow> nat" where
  "group_value g =
     ab_bit (g ! 0) * 16 + ab_bit (g ! 1) * 8 + ab_bit (g ! 2) * 4 + ab_bit (g ! 3) * 2 + ab_bit (g ! 4)"

definition ab_symbol :: "char \<Rightarrow> bool" where
  "ab_symbol c = (toUpperCase_char c = CHR ''A'' \<or> toUpperCase_char c = CHR ''B'')"

definition ab_group :: "string \<Rightarrow> bool" where
  "ab_group g = (length g = 5 \<and> list_all ab_symbol g)"

definition lower_alphabet :: string where
  "lower_alphabet = ''abcdefghijklmnopqrstuvwxyz''"

definition letter :: "char \<Rightarrow> bool" where
  "letter c = (c \<in> set alphabet \<or> c \<in> set lower_alphabet)"

text \<open>
  An invalid input of \<^verbatim>\<open>decodeGroup\<close>, in the words of the specification: its length after
  case normalization is not 5, or it has a character outside \<open>{A, B}\<close>, or its value is one
  of 26..31.
\<close>

definition invalid_input :: "string \<Rightarrow> bool" where
  "invalid_input s =
     (length (toUpperCase s) \<noteq> 5 \<or>
      (\<exists>c \<in> set (toUpperCase s). c \<noteq> CHR ''A'' \<and> c \<noteq> CHR ''B'') \<or>
      (26 \<le> group_value s \<and> group_value s \<le> 31))"

text \<open>The binary digit that the loop of \<^verbatim>\<open>decodeGroup\<close> appends for a symbol.\<close>

definition bit_char :: "char \<Rightarrow> char" where
  "bit_char c = (if toUpperCase_char c = CHR ''B'' then CHR ''1'' else CHR ''0'')"

section \<open>An example page\<close>

text \<open>
  A page with one puzzle named \<^verbatim>\<open>layer4\<close>, built as the markup contract of the controller
  asks: a container of chips that carry the groups of RELIABLE and an empty back, the three
  buttons, the guess input with a given value, and the feedback region. No chip is revealed.
\<close>

definition plain_element :: element where
  "plain_element =
     \<lparr>el_value = JSUndefined, className = [], textContent = [], style_display = [], chip_cards = []\<rparr>"

definition hidden_chip :: "string \<Rightarrow> chip_card" where
  "hidden_chip g =
     \<lparr>revealed = False, aria_pressed = Some ''false'', data_group = Some g, chip_back = Some []\<rparr>"

definition layer4_groups :: "string list" where
  "layer4_groups = [''BAAAB'', ''AABAA'', ''ABABB'', ''ABAAA'', ''AAAAA'', ''AAAAB'', ''ABABB'', ''AABAA'']"

definition layer4_page :: "jsval \<Rightarrow> page" where
  "layer4_page guess =
     \<lparr>elements = map_of
        [(''layer4Chips'', plain_element\<lparr>chip_cards := map hidden_chip layer4_groups\<rparr>),
         (''layer4RevealAll'', plain_element),
         (''layer4CheckGuess'', plain_element),
         (''layer4Hint'', plain_element\<lparr>style_display := ''none''\<rparr>),
         (''layer4Guess'', plain_element\<lparr>el_value := guess\<rparr>),
         (''layer4Feedback'', plain_element\<lparr>className := ''feedback-area hidden''\<rparr>)],
      prefers_reduced_motion = False,
      timers = [],
      listeners = [],
      console = []\<rparr>"

section \<open>Characters\<close>

lemma of_char_toUpperCase_char:
  "(of_char (toUpperCase_char c) :: nat) =
     (if 97 \<le> (of_char c :: nat) \<and> (of_char c :: nat) \<le> 122 then of_char c - 32 else of_char c)"
  by (auto simp: toUpperCase_char_def)

lemma char_eq_code: "(c = d) = ((of_char c :: nat) = of_char d)"
  by simp

lemma toUpperCase_char_A: "(toUpperCase_char c = CHR ''A'') = (c = CHR ''A'' \<or> c = CHR ''a'')"
  unfolding char_eq_code [of _ "CHR ''A''"] char_eq_code [of _ "CHR ''a''"] of_char_toUpperCase_char
  by (simp; arith)

lemma toUpperCase_char_B: "(toUpperCase_char c = CHR ''B'') = (c = CHR ''B'' \<or> c = CHR ''b'')"
  unfolding char_eq_code [of _ "CHR ''B''"] char_eq_code [of _ "CHR ''b''"] of_char_toUpperCase_char
  by (simp; arith)

lemma fromCharCode_alphabet_all:
  "list_all (\<lambda>i. fromCharCode (65 + int i) = [alphabet ! i]) [0..<26]"
  by code_simp

lemma fromCharCode_alphabet: "i \<le> 25 \<Longrightarrow> fromCharCode (65 + int i) = [alphabet ! i]"
  using fromCharCode_alphabet_all by (simp add: list_all_iff)

lemma alphabet_nth_mem: "i \<le> 25 \<Longrightarrow> alphabet ! i \<in> set alphabet"
  by (rule nth_mem) (simp add: alphabet_def)

lemma question_mark_no_letter: "CHR ''?'' \<notin> set alphabet"
  by (simp add: alphabet_def)

section \<open>decodeGroup\<close>

lemma length5: "length g = 5 \<Longrightarrow> \<exists>a b c d e. g = [a, b, c, d, e]"
  by (auto simp: length_Suc_conv eval_nat_numeral)

lemma ab_loop_symbols:
  "list_all ab_symbol g \<Longrightarrow> ab_loop (toUpperCase g) acc = Some (acc @ map bit_char g)"
  by (induction g arbitrary: acc) (auto simp: toUpperCase_def ab_symbol_def bit_char_def)

lemma ab_loop_other:
  "\<not> list_all ab_symbol g \<Longrightarrow> ab_loop (toUpperCase g) acc = None"
  by (induction g arbitrary: acc) (auto simp: toUpperCase_def ab_symbol_def)

lemma parse_bits:
  "parseInt_radix2 (map bit_char [a, b, c, d, e]) = Some (int (group_value [a, b, c, d, e]))"
  by (simp add: parseInt_radix2_def binary_digit_def bit_char_def group_value_def ab_bit_def)

lemma group_value_le_31: "group_value g \<le> 31"
  by (simp add: group_value_def ab_bit_def)

lemma decodeGroup_ab_group:
  assumes "ab_group g"
  shows "decodeGroup (JSString g) =
           (if group_value g > 25 then ''?'' else fromCharCode (65 + int (group_value g)))"
proof -
  from assms obtain a b c d e where g: "g = [a, b, c, d, e]"
    using length5 unfolding ab_group_def by blast
  have len: "length (toUpperCase g) = 5" by (simp add: g toUpperCase_def)
  have loop: "ab_loop (take 5 (toUpperCase g)) [] = Some (map bit_char g)"
    using assms ab_loop_symbols [of g "[]"] len by (simp add: ab_group_def)
  show ?thesis
    unfolding decodeGroup_def Let_def
    using len loop parse_bits [of a b c d e] by (simp add: g)
qed

lemma decodeGroup_not_ab_group:
  assumes "\<not> ab_group g"
  shows "decodeGroup (JSString g) = ''?''"
proof (cases "length g = 5")
  case True
  then have "\<not> list_all ab_symbol g" using assms by (simp add: ab_group_def)
  then have loop: "ab_loop (toUpperCase g) [] = None"
    by (rule ab_loop_other)
  have len: "length (toUpperCase g) = 5" using True by (simp add: toUpperCase_def)
  show ?thesis using len loop by (simp add: decodeGroup_def Let_def)
next
  case False
  then show ?thesis by (simp add: decodeGroup_def Let_def toUpperCase_def)
qed

lemma decodeGroup_no_string: "typeof v \<noteq> ''string'' \<Longrightarrow> decodeGroup v = ''?''"
  by (simp add: decodeGroup_def)

lemma decodeGroup_letter:
  assumes "ab_group g" and "group_value g \<le> 25"
  shows "decodeGroup (JSString g) = [alphabet ! group_value g]"
  using assms by (simp add: decodeGroup_ab_group fromCharCode_alphabet)

lemma ab_group_upper:
  "ab_group g = (length (toUpperCase g) = 5 \<and>
                 \<not> (\<exists>c \<in> set (toUpperCase g). c \<noteq> CHR ''A'' \<and> c \<noteq> CHR ''B''))"
  by (auto simp: ab_group_def toUpperCase_def list_all_iff ab_symbol_def)

lemma invalid_input_ab_group: "invalid_input s = (\<not> ab_group s \<or> 25 < group_value s)"
proof -
  have "(26 \<le> group_value s \<and> group_value s \<le> 31) = (25 < group_value s)"
    using group_value_le_31 [of s] by arith
  then show ?thesis unfolding invalid_input_def ab_group_upper by blast
qed

lemma decodeGroup_unknown_iff: "(decodeGroup (JSString s) = ''?'') = invalid_input s"
proof (cases "ab_group s")
  case ab: True
  show ?thesis
  proof (cases "group_value s \<le> 25")
    case v: True
    have "decodeGroup (JSString s) = [alphabet ! group_value s]"
      by (rule decodeGroup_letter [OF ab v])
    moreover have "alphabet ! group_value s \<noteq> CHR ''?''"
      using alphabet_nth_mem [OF v] question_mark_no_letter by metis
    ultimately have "decodeGroup (JSString s) \<noteq> ''?''" by simp
    then show ?thesis using ab v by (simp add: invalid_input_ab_group)
  next
    case False
    then have "decodeGroup (JSString s) = ''?''" by (simp add: decodeGroup_ab_group [OF ab])
    then show ?thesis using False by (simp add: invalid_input_ab_group)
  qed
next
  case False
  then show ?thesis by (simp add: decodeGroup_not_ab_group invalid_input_ab_group)
qed

lemma decodeGroup_valid_letter:
  assumes "\<not> invalid_input s"
  shows "\<exists>c \<in> set alphabet. decodeGroup (JSString s) = [c]"
proof -
  from assms have ab: "ab_group s" and v: "group_value s \<le> 25"
    by (simp_all add: invalid_input_ab_group)
  show ?thesis using decodeGroup_letter [OF ab v] alphabet_nth_mem [OF v] by blast
qed

lemma decodeGroup_examples:
  "decodeGroup (JSString ''AAAAA'') = ''A''"
  "decodeGroup (JSString ''BAAAB'') = ''R''"
  "decodeGroup (JSString ''ABBBA'') = ''O''"
  "decodeGroup (JSString ''AABAA'') = ''E''"
  by code_simp+

text \<open>
  Claim C1. For every string of five symbols that are A or B after uppercasing,
  \<^verbatim>\<open>decodeGroup\<close> reads the symbols as a 5-bit number (A = 0, B = 1, most significant bit
  first) and, when that number is at most 25, returns the letter at that offset of the alphabet.
  In particular AAAAA gives A, BAAAB gives R, ABBBA gives O and AABAA gives E.
\<close>

theorem decodeGroup_five_bit_letter:
  "(ab_group g \<and> group_value g \<le> 25 \<longrightarrow> decodeGroup (JSString g) = [alphabet ! group_value g]) \<and>
   decodeGroup (JSString ''AAAAA'') = ''A'' \<and>
   decodeGroup (JSString ''BAAAB'') = ''R'' \<and>
   decodeGroup (JSString ''ABBBA'') = ''O'' \<and>
   decodeGroup (JSString ''AABAA'') = ''E''"
  using decodeGroup_letter [of g] decodeGroup_examples by simp

theorem decodeGroup_five_bit_letter_witness:
  "ab_group ''bAAaB'' \<and> group_value ''bAAaB'' \<le> 25 \<and> decodeGroup (JSString ''bAAaB'') = ''R''"
proof -
  have h1: "ab_group ''bAAaB''" by code_simp
  have h2: "group_value ''bAAaB'' \<le> 25" by code_simp
  have "decodeGroup (JSString ''bAAaB'') = [alphabet ! group_value ''bAAaB'']"
    using decodeGroup_five_bit_letter [of "''bAAaB''"] h1 h2 by blast
  moreover have "[alphabet ! group_value ''bAAaB''] = ''R''" by code_simp
  ultimately show ?thesis using h1 h2 by simp
qed

text \<open>
  Claim C2. For every input string, \<^verbatim>\<open>decodeGroup\<close> returns the sentinel \<^verbatim>\<open>?\<close> exactly
  when the input is invalid (length after case normalization other than 5, a character outside
  \<open>{A, B}\<close>, or a value in 26..31), and for every valid input it returns a single uppercase
  letter A-Z. \<^verbatim>\<open>decodeGroup\<close> has no statement that throws: it is a total function to
  strings.
\<close>

theorem decodeGroup_unknown_exactly_invalid:
  "(decodeGroup (JSString s) = ''?'') = invalid_input s \<and>
   (\<not> invalid_input s \<longrightarrow> (\<exists>c \<in> set alphabet. decodeGroup (JSString s) = [c]))"
  using decodeGroup_unknown_iff [of s] decodeGroup_valid_letter [of s] by blast

theorem decodeGroup_unknown_exactly_invalid_witness:
  "invalid_input ''BBABA'' \<and> decodeGroup (JSString ''BBABA'') = ''?'' \<and>
   \<not> invalid_input ''abbba'' \<and> (\<exists>c \<in> set alphabet. decodeGroup (JSString ''abbba'') = [c])"
proof -
  have h1: "invalid_input ''BBABA''" by code_simp
  have h2: "\<not> invalid_input ''abbba''" by code_simp
  show ?thesis
    using decodeGroup_unknown_exactly_invalid [of "''BBABA''"]
      decodeGroup_unknown_exactly_invalid [of "''abbba''"] h1 h2 by blast
qed

section \<open>isValidGroup\<close>

lemma valid_loop_symbols: "valid_loop g = list_all ab_symbol g"
  by (induction g) (auto simp: ab_symbol_def Let_def)

lemma isValidGroup_string: "isValidGroup (JSString g) = ab_group g"
  by (auto simp: isValidGroup_def ab_group_def valid_loop_symbols)

lemma isValidGroup_no_string: "typeof v \<noteq> ''string'' \<Longrightarrow> \<not> isValidGroup v"
  by (simp add: isValidGroup_def)

lemma isValidGroup_decodeGroup_disagree:
  "(isValidGroup (JSString g) \<noteq> (decodeGroup (JSString g) \<noteq> ''?'')) =
     (ab_group g \<and> 25 < group_value g)"
proof -
  have "(decodeGroup (JSString g) \<noteq> ''?'') = (ab_group g \<and> group_value g \<le> 25)"
    unfolding decodeGroup_unknown_iff invalid_input_ab_group by auto
  then show ?thesis using isValidGroup_string [of g] by auto
qed

text \<open>
  Claim C3. \<^verbatim>\<open>isValidGroup(g)\<close> is to be true if and only if \<^verbatim>\<open>decodeGroup(g)\<close> returns
  a letter rather than \<^verbatim>\<open>?\<close>. The code breaks this at the group BBBBB: its value is 31,
  outside the range 0..25 of the letters, and \<^verbatim>\<open>decodeGroup\<close> returns \<^verbatim>\<open>?\<close> for it, but
  \<^verbatim>\<open>isValidGroup\<close>, which repeats the tests of type, length and symbols and leaves out the
  test of the range, returns true.
\<close>

theorem isValidGroup_accepts_out_of_range:
  "isValidGroup (JSString ''BBBBB'') = True \<and>
   group_value ''BBBBB'' = 31 \<and>
   decodeGroup (JSString ''BBBBB'') = ''?''"
proof -
  have 1: "isValidGroup (JSString ''BBBBB'') = True" by code_simp
  have 2: "group_value ''BBBBB'' = 31" by code_simp
  have 3: "decodeGroup (JSString ''BBBBB'') = ''?''" by code_simp
  show ?thesis using 1 2 3 by blast
qed

theorem isValidGroup_accepts_out_of_range_witness:
  "isValidGroup (JSString ''BBBBB'') \<noteq> (decodeGroup (JSString ''BBBBB'') \<noteq> ''?'')"
  using isValidGroup_accepts_out_of_range by simp

section \<open>decodeGroups\<close>

lemma join_empty_sep: "join [] xs = concat xs"
  by (induction "[] :: string" xs rule: join.induct) simp_all

lemma decodeGroups_array: "decodeGroups (JSArray gs) = concat (map decodeGroup gs)"
  by (simp add: decodeGroups_def join_empty_sep)

lemma decodeGroups_no_array: "\<not> isArray v \<Longrightarrow> decodeGroups v = []"
  by (simp add: decodeGroups_def)

lemma decodeGroups_examples:
  "decodeGroups (JSArray (map JSString
     [''BAAAB'', ''AABAA'', ''ABABB'', ''ABAAA'', ''AAAAA'', ''AAAAB'', ''ABABB'', ''AABAA''])) = ''RELIABLE''"
  "decodeGroups (JSArray (map JSString
     [''BAABA'', ''AABAA'', ''BAABA'', ''BAABA'', ''ABAAA'', ''ABBBA'', ''ABBAB''])) = ''SESSION''"
  by code_simp+

text \<open>
  Claim C4. \<^verbatim>\<open>decodeGroups\<close> maps \<^verbatim>\<open>decodeGroup\<close> over its input array and concatenates
  the results in order; an input that is no array gives the empty string; the two puzzle
  messages decode to RELIABLE and SESSION.
\<close>

theorem decodeGroups_maps_and_concatenates:
  "decodeGroups (JSArray gs) = concat (map decodeGroup gs) \<and>
   (\<not> isArray v \<longrightarrow> decodeGroups v = []) \<and>
   decodeGroups (JSArray (map JSString
     [''BAAAB'', ''AABAA'', ''ABABB'', ''ABAAA'', ''AAAAA'', ''AAAAB'', ''ABABB'', ''AABAA''])) = ''RELIABLE'' \<and>
   decodeGroups (JSArray (map JSString
     [''BAABA'', ''AABAA'', ''BAABA'', ''BAABA'', ''ABAAA'', ''ABBBA'', ''ABBAB''])) = ''SESSION''"
  using decodeGroups_array [of gs] decodeGroups_no_array [of v] decodeGroups_examples by blast

theorem decodeGroups_maps_and_concatenates_witness:
  "\<not> isArray (JSString ''BAAAB'') \<and> decodeGroups (JSString ''BAAAB'') = [] \<and>
   decodeGroups (JSArray [JSString ''baaab'', JSNull, JSString ''AABAA'']) = ''R?E''"
proof -
  have h: "\<not> isArray (JSString ''BAAAB'')" by simp
  have "decodeGroups (JSArray [JSString ''baaab'', JSNull, JSString ''AABAA'']) =
          concat (map decodeGroup [JSString ''baaab'', JSNull, JSString ''AABAA''])"
    using decodeGroups_maps_and_concatenates [of "[JSString ''baaab'', JSNull, JSString ''AABAA'']" JSNull]
    by blast
  moreover have "concat (map decodeGroup [JSString ''baaab'', JSNull, JSString ''AABAA'']) = ''R?E''"
    by code_simp
  ultimately show ?thesis
    using decodeGroups_maps_and_concatenates [of "[]" "JSString ''BAAAB''"] h by simp
qed

lemma decodeGroup_length: "length (decodeGroup v) = 1"
proof (cases v)
  case (JSString g)
  show ?thesis
  proof (cases "ab_group g")
    case True
    then show ?thesis by (simp add: JSString decodeGroup_ab_group fromCharCode_def)
  next
    case False
    then show ?thesis by (simp add: JSString decodeGroup_not_ab_group)
  qed
qed (simp_all add: decodeGroup_no_string)

lemma concat_singletons:
  "(\<And>x. length (f x) = 1) \<Longrightarrow> concat (map f xs) = map (\<lambda>x. hd (f x)) xs"
proof (induction xs)
  case Nil
  then show ?case by simp
next
  case (Cons x xs)
  have "length (f x) = 1" by (rule Cons.prems)
  then have "f x = [hd (f x)]" by (cases "f x") simp_all
  then show ?case using Cons by simp
qed

lemma decodeGroups_heads: "decodeGroups (JSArray gs) = map (\<lambda>g. hd (decodeGroup g)) gs"
  unfolding decodeGroups_array by (rule concat_singletons) (rule decodeGroup_length)

text \<open>
  Claim C9. For every array of strings, the decoded text is as long as the array: each group,
  valid or not, contributes exactly one character, so the character at position \<open>i\<close> is the
  decoding of the group at position \<open>i\<close>.
\<close>

theorem decodeGroups_length:
  "length (decodeGroups (JSArray (map JSString gs))) = length gs \<and>
   (\<forall>i < length gs. [decodeGroups (JSArray (map JSString gs)) ! i] = decodeGroup (JSString (gs ! i)))"
proof -
  have "[hd (decodeGroup v)] = decodeGroup v" for v
    using decodeGroup_length [of v] by (cases "decodeGroup v") simp_all
  then show ?thesis by (simp add: decodeGroups_heads)
qed

theorem decodeGroups_length_witness:
  "length (decodeGroups (JSArray (map JSString [''BAAAB'', ''xyz'', ''BBBBB'']))) = 3 \<and>
   (1::nat) < length [''BAAAB'', ''xyz'', ''BBBBB''] \<and>
   [decodeGroups (JSArray (map JSString [''BAAAB'', ''xyz'', ''BBBBB''])) ! 1] = ''?''"
proof -
  have h: "(1::nat) < length [''BAAAB'', ''xyz'', ''BBBBB'']" by simp
  have d: "decodeGroup (JSString ([''BAAAB'', ''xyz'', ''BBBBB''] ! 1)) = ''?''" by code_simp
  show ?thesis
    using decodeGroups_length [of "[''BAAAB'', ''xyz'', ''BBBBB'']"] h d by auto
qed

section \<open>normalizePlaintext\<close>

lemma alphabet_codes: "list_all (\<lambda>n. char_of n \<in> set alphabet) [65..<91]"
  by code_simp

lemma lower_alphabet_codes: "list_all (\<lambda>n. char_of n \<in> set lower_alphabet) [97..<123]"
  by code_simp

lemma mem_alphabet_code: "(c \<in> set alphabet) = (65 \<le> (of_char c :: nat) \<and> (of_char c :: nat) \<le> 90)"
proof
  assume "c \<in> set alphabet"
  then show "65 \<le> (of_char c :: nat) \<and> (of_char c :: nat) \<le> 90"
    unfolding alphabet_def by auto
next
  assume a: "65 \<le> (of_char c :: nat) \<and> (of_char c :: nat) \<le> 90"
  have all: "\<forall>n \<in> {65..<91}. (char_of (n::nat) :: char) \<in> set alphabet"
    using alphabet_codes unfolding list_all_iff set_upt .
  from a have "(of_char c :: nat) \<in> {65..<91}" by simp
  with all have "char_of (of_char c :: nat) \<in> set alphabet" by blast
  then show "c \<in> set alphabet" by simp
qed

lemma mem_lower_alphabet_code:
  "(c \<in> set lower_alphabet) = (97 \<le> (of_char c :: nat) \<and> (of_char c :: nat) \<le> 122)"
proof
  assume "c \<in> set lower_alphabet"
  then show "97 \<le> (of_char c :: nat) \<and> (of_char c :: nat) \<le> 122"
    unfolding lower_alphabet_def by auto
next
  assume a: "97 \<le> (of_char c :: nat) \<and> (of_char c :: nat) \<le> 122"
  have all: "\<forall>n \<in> {97..<123}. (char_of (n::nat) :: char) \<in> set lower_alphabet"
    using lower_alphabet_codes unfolding list_all_iff set_upt .
  from a have "(of_char c :: nat) \<in> {97..<123}" by simp
  with all have "char_of (of_char c :: nat) \<in> set lower_alphabet" by blast
  then show "c \<in> set lower_alphabet" by simp
qed

lemma ascii_letter_letter: "ascii_letter c = letter c"
  by (auto simp: ascii_letter_def letter_def mem_alphabet_code mem_lower_alphabet_code)

lemma toUpperCase_char_letter: "letter c \<Longrightarrow> toUpperCase_char c \<in> set alphabet"
  unfolding ascii_letter_letter [symmetric] mem_alphabet_code of_char_toUpperCase_char ascii_letter_def
  by auto

lemma toUpperCase_alphabets:
  "list_all (\<lambda>i. toUpperCase_char (lower_alphabet ! i) = alphabet ! i \<and>
                  toUpperCase_char (alphabet ! i) = alphabet ! i) [0..<26]"
  by code_simp

lemma replace_all_class_filter: "replace_all_class (\<lambda>c. \<not> p c) [] s = filter p s"
  by (induction s) (simp_all add: replace_all_class_def)

lemma normalizePlaintext_string:
  "normalizePlaintext (JSString s) = map toUpperCase_char (filter letter s)"
proof -
  have "ascii_letter = letter" by (rule ext) (rule ascii_letter_letter)
  then show ?thesis
    by (cases s) (simp_all add: normalizePlaintext_def replace_all_class_filter toUpperCase_def)
qed

lemma normalizePlaintext_examples:
  "normalizePlaintext (JSString ''Hello World!'') = ''HELLOWORLD''"
  "normalizePlaintext (JSString ''SeSsIoN'') = ''SESSION''"
  by code_simp+

text \<open>
  Claim C5. For every input string, \<^verbatim>\<open>normalizePlaintext\<close> removes every character that
  is not an ASCII letter and uppercases the rest, so the result holds letters A-Z only;
  \<^verbatim>\<open>Hello World!\<close> becomes HELLOWORLD and \<^verbatim>\<open>SeSsIoN\<close> becomes SESSION.
\<close>

theorem normalizePlaintext_letters_uppercased:
  "normalizePlaintext (JSString s) = map toUpperCase_char (filter letter s) \<and>
   list_all (\<lambda>c. c \<in> set alphabet) (normalizePlaintext (JSString s)) \<and>
   normalizePlaintext (JSString ''Hello World!'') = ''HELLOWORLD'' \<and>
   normalizePlaintext (JSString ''SeSsIoN'') = ''SESSION''"
proof -
  have "list_all (\<lambda>c. c \<in> set alphabet) (map toUpperCase_char (filter letter s))"
    by (simp add: list_all_iff toUpperCase_char_letter)
  then show ?thesis
    using normalizePlaintext_string [of s] normalizePlaintext_examples by simp
qed

theorem normalizePlaintext_letters_uppercased_witness:
  "normalizePlaintext (JSString ''r e-l 1 i!'') = ''RELI'' \<and>
   list_all (\<lambda>c. c \<in> set alphabet) (normalizePlaintext (JSString ''r e-l 1 i!''))"
proof -
  note t = normalizePlaintext_letters_uppercased [of "''r e-l 1 i!''"]
  from t have "normalizePlaintext (JSString ''r e-l 1 i!'') = map toUpperCase_char (filter letter ''r e-l 1 i!'')"
    by (rule conjunct1)
  also have "map toUpperCase_char (filter letter ''r e-l 1 i!'') = ''RELI''" by code_simp
  finally have n: "normalizePlaintext (JSString ''r e-l 1 i!'') = ''RELI''" .
  from t have "list_all (\<lambda>c. c \<in> set alphabet) (normalizePlaintext (JSString ''r e-l 1 i!''))"
    by blast
  with n show ?thesis by blast
qed

section \<open>checkGuess\<close>

lemma feedback_class_checkGuess:
  assumes "elements s (l @ ''Guess'') = Some guessInput" and "elements s (l @ ''Feedback'') = Some feedbackArea"
  shows "feedback_class l (checkGuess l e s) =
           Some (if normalizePlaintext (el_value guessInput) = normalizePlaintext (JSString e)
                 then ''feedback-area success''
                 else if normalizePlaintext (el_value guessInput) = [] then ''feedback-area hidden''
                 else ''feedback-area error'')"
  using assms
  by (simp add: checkGuess_def feedback_class_def set_feedback_def set_display_def Let_def
      split: option.splits)

lemma feedback_text_checkGuess:
  assumes "elements s (l @ ''Guess'') = Some guessInput" and "elements s (l @ ''Feedback'') = Some feedbackArea"
  shows "feedback_text l (checkGuess l e s) =
           Some (if normalizePlaintext (el_value guessInput) = normalizePlaintext (JSString e)
                 then correct_message e
                 else if normalizePlaintext (el_value guessInput) = [] then []
                 else incorrect_message)"
  using assms
  by (simp add: checkGuess_def feedback_text_def set_feedback_def set_display_def Let_def
      split: option.splits)

lemma guess_of_Some:
  "guess_of l s = Some g \<Longrightarrow> \<exists>guessInput. elements s (l @ ''Guess'') = Some guessInput \<and> el_value guessInput = g"
  by (auto simp: guess_of_def)

lemma checkGuess_feedback:
  assumes "guess_of l s = Some g" and "elements s (l @ ''Feedback'') \<noteq> None"
  shows "feedback_class l (checkGuess l e s) =
           Some (if normalizePlaintext g = normalizePlaintext (JSString e) then ''feedback-area success''
                 else if normalizePlaintext g = [] then ''feedback-area hidden''
                 else ''feedback-area error'')"
    and "feedback_text l (checkGuess l e s) =
           Some (if normalizePlaintext g = normalizePlaintext (JSString e) then correct_message e
                 else if normalizePlaintext g = [] then []
                 else incorrect_message)"
proof -
  from assms obtain guessInput feedbackArea where
    "elements s (l @ ''Guess'') = Some guessInput" "el_value guessInput = g"
    "elements s (l @ ''Feedback'') = Some feedbackArea"
    using guess_of_Some by blast
  then show "feedback_class l (checkGuess l e s) =
           Some (if normalizePlaintext g = normalizePlaintext (JSString e) then ''feedback-area success''
                 else if normalizePlaintext g = [] then ''feedback-area hidden''
                 else ''feedback-area error'')"
    and "feedback_text l (checkGuess l e s) =
           Some (if normalizePlaintext g = normalizePlaintext (JSString e) then correct_message e
                 else if normalizePlaintext g = [] then []
                 else incorrect_message)"
    using feedback_class_checkGuess [of s l guessInput feedbackArea e]
      feedback_text_checkGuess [of s l guessInput feedbackArea e] by simp_all
qed

lemma normalize_examples:
  "normalizePlaintext (JSString ''r e l i a b l e'') = normalizePlaintext (JSString ''RELIABLE'')"
  "normalizePlaintext (JSString ''RELIABLE!'') = normalizePlaintext (JSString ''RELIABLE'')"
  by code_simp+

lemma normalizePlaintext_drop_other:
  "\<not> letter c \<Longrightarrow> normalizePlaintext (JSString (xs @ c # ys)) = normalizePlaintext (JSString (xs @ ys))"
  by (simp add: normalizePlaintext_string)

lemma letter_toUpperCase_char: "letter (toUpperCase_char c) = letter c"
  unfolding letter_def mem_alphabet_code mem_lower_alphabet_code of_char_toUpperCase_char
  by auto

lemma toUpperCase_char_idem: "toUpperCase_char (toUpperCase_char c) = toUpperCase_char c"
  unfolding char_eq_code [of "toUpperCase_char (toUpperCase_char c)"]
  by (auto simp: of_char_toUpperCase_char)

lemma normalizePlaintext_toUpperCase:
  "normalizePlaintext (JSString (toUpperCase t)) = normalizePlaintext (JSString t)"
  by (induction t)
     (simp_all add: normalizePlaintext_string toUpperCase_def letter_toUpperCase_char toUpperCase_char_idem)

text \<open>
  Claim C6, amended. On a page that has the guess input and the feedback region,
  \<^verbatim>\<open>checkGuess\<close> normalizes the guess and the expected answer with
  \<^verbatim>\<open>normalizePlaintext\<close> and compares them for equality: equal gives the feedback of a
  correct guess, so matching ignores case, punctuation and whitespace (the guesses
  \<^verbatim>\<open>r e l i a b l e\<close> and \<^verbatim>\<open>RELIABLE!\<close> are correct for RELIABLE). A guess whose
  normalization is empty is never marked incorrect, and it clears the feedback when the
  expected answer does not normalize to the empty string as well. Every other guess that does
  not match is marked incorrect.
\<close>

theorem checkGuess_feedback_states:
  assumes "guess_of l s = Some g" and "elements s (l @ ''Feedback'') \<noteq> None"
  shows "(normalizePlaintext g = normalizePlaintext (JSString e) \<longrightarrow>
            feedback_class l (checkGuess l e s) = Some ''feedback-area success'') \<and>
         (normalizePlaintext g = [] \<and> normalizePlaintext (JSString e) \<noteq> [] \<longrightarrow>
            feedback_class l (checkGuess l e s) = Some ''feedback-area hidden'' \<and>
            feedback_text l (checkGuess l e s) = Some []) \<and>
         (normalizePlaintext g = [] \<longrightarrow>
            feedback_class l (checkGuess l e s) \<noteq> Some ''feedback-area error'') \<and>
         (normalizePlaintext g \<noteq> normalizePlaintext (JSString e) \<and> normalizePlaintext g \<noteq> [] \<longrightarrow>
            feedback_class l (checkGuess l e s) = Some ''feedback-area error'') \<and>
         (g = JSString ''r e l i a b l e'' \<or> g = JSString ''RELIABLE!'' \<longrightarrow>
            feedback_class l (checkGuess l ''RELIABLE'' s) = Some ''feedback-area success'') \<and>
         (\<not> letter c \<longrightarrow>
            normalizePlaintext (JSString (xs @ c # ys)) = normalizePlaintext (JSString (xs @ ys))) \<and>
         normalizePlaintext (JSString (toUpperCase t)) = normalizePlaintext (JSString t)"
proof -
  note fb = checkGuess_feedback [OF assms]
  have 1: "normalizePlaintext g = normalizePlaintext (JSString e) \<longrightarrow>
            feedback_class l (checkGuess l e s) = Some ''feedback-area success''"
    by (simp add: fb)
  have 2: "normalizePlaintext g = [] \<and> normalizePlaintext (JSString e) \<noteq> [] \<longrightarrow>
            feedback_class l (checkGuess l e s) = Some ''feedback-area hidden'' \<and>
            feedback_text l (checkGuess l e s) = Some []"
    by (auto simp: fb)
  have 3: "normalizePlaintext g = [] \<longrightarrow>
            feedback_class l (checkGuess l e s) \<noteq> Some ''feedback-area error''"
    by (simp add: fb)
  have 4: "normalizePlaintext g \<noteq> normalizePlaintext (JSString e) \<and> normalizePlaintext g \<noteq> [] \<longrightarrow>
            feedback_class l (checkGuess l e s) = Some ''feedback-area error''"
    by (simp add: fb)
  have 5: "g = JSString ''r e l i a b l e'' \<or> g = JSString ''RELIABLE!'' \<longrightarrow>
            feedback_class l (checkGuess l ''RELIABLE'' s) = Some ''feedback-area success''"
    using normalize_examples by (auto simp: fb)
  show ?thesis
    using 1 2 3 4 5 normalizePlaintext_drop_other [of c xs ys] normalizePlaintext_toUpperCase [of t]
    by blast
qed

text \<open>
  Claim C6 says that a guess whose normalization is the empty string clears the feedback. On
  the example page, with the expected answer \<^verbatim>\<open>42\<close> (which normalizes to the empty string)
  and an empty guess, the feedback is the one of a correct guess.
\<close>

theorem checkGuess_empty_guess_counterexample:
  "normalizePlaintext (JSString '''') = [] \<and>
   feedback_class ''layer4'' (checkGuess ''layer4'' ''42'' (layer4_page (JSString ''''))) =
     Some ''feedback-area success''"
  by code_simp

lemma layer4_page_guess: "guess_of ''layer4'' (layer4_page g) = Some g"
  by (simp add: guess_of_def layer4_page_def plain_element_def)

lemma layer4_page_feedback: "elements (layer4_page g) (''layer4'' @ ''Feedback'') \<noteq> None"
  by (simp add: layer4_page_def)

theorem checkGuess_feedback_states_witness:
  "guess_of ''layer4'' (layer4_page (JSString ''reliable?'')) = Some (JSString ''reliable?'') \<and>
   elements (layer4_page (JSString ''reliable?'')) (''layer4'' @ ''Feedback'') \<noteq> None \<and>
   normalizePlaintext (JSString ''reliable?'') = normalizePlaintext (JSString ''RELIABLE'') \<and>
   feedback_class ''layer4'' (checkGuess ''layer4'' ''RELIABLE'' (layer4_page (JSString ''reliable?''))) =
     Some ''feedback-area success''"
proof -
  have n: "normalizePlaintext (JSString ''reliable?'') = normalizePlaintext (JSString ''RELIABLE'')"
    by code_simp
  show ?thesis
    using checkGuess_feedback_states [OF layer4_page_guess layer4_page_feedback,
        of "JSString ''reliable?''" "''RELIABLE''"]
      layer4_page_guess [of "JSString ''reliable?''"] layer4_page_feedback [of "JSString ''reliable?''"] n
    by blast
qed

text \<open>
  Claim C10. \<^verbatim>\<open>checkGuess\<close> tests equality before it tests for an empty guess: when the
  expected answer normalizes to the empty string, an empty guess is reported correct and the
  feedback is not cleared; an empty guess clears the feedback only when the expected answer is
  non-empty after normalization.
\<close>

theorem checkGuess_equality_before_empty:
  assumes "guess_of l s = Some g" and "elements s (l @ ''Feedback'') \<noteq> None"
    and "normalizePlaintext g = []"
  shows "(normalizePlaintext (JSString e) = [] \<longrightarrow>
            feedback_class l (checkGuess l e s) = Some ''feedback-area success'' \<and>
            feedback_text l (checkGuess l e s) = Some (correct_message e)) \<and>
         (feedback_class l (checkGuess l e s) = Some ''feedback-area hidden'') =
            (normalizePlaintext (JSString e) \<noteq> [])"
  using assms(3) by (auto simp: checkGuess_feedback [OF assms(1,2)])

theorem checkGuess_equality_before_empty_witness:
  "guess_of ''layer4'' (layer4_page (JSString '' '')) = Some (JSString '' '') \<and>
   elements (layer4_page (JSString '' '')) (''layer4'' @ ''Feedback'') \<noteq> None \<and>
   normalizePlaintext (JSString '' '') = [] \<and>
   normalizePlaintext (JSString ''42'') = [] \<and>
   feedback_class ''layer4'' (checkGuess ''layer4'' ''42'' (layer4_page (JSString '' ''))) =
     Some ''feedback-area success''"
proof -
  have n: "normalizePlaintext (JSString '' '') = []" by code_simp
  have m: "normalizePlaintext (JSString ''42'') = []" by code_simp
  show ?thesis
    using checkGuess_equality_before_empty [OF layer4_page_guess layer4_page_feedback n, of "''42''"]
      layer4_page_guess [of "JSString '' ''"] layer4_page_feedback [of "JSString '' ''"] n m
    by blast
qed

section \<open>Revealing chips\<close>

lemma card_at_update_card:
  "card_at (update_card c j f s) cid i =
     (if c = cid \<and> j = i then map_option f (card_at s cid i) else card_at s cid i)"
  by (auto simp: card_at_def update_card_def split: option.splits)

lemma chip_revealed_reveal:
  "chip_revealed s cid i \<Longrightarrow> chip_revealed (update_card c j reveal_card s) cid i"
  by (auto simp: chip_revealed_def card_at_update_card reveal_card_def split: option.splits)

lemma chip_revealed_run_timer: "chip_revealed s cid i \<Longrightarrow> chip_revealed (run_timer t s) cid i"
  by (cases t) (simp add: run_timer_def chip_revealed_reveal)

lemma chip_revealed_fold_timers:
  "chip_revealed s cid i \<Longrightarrow> chip_revealed (foldl (\<lambda>s' t. run_timer t s') s ts) cid i"
  by (induction ts arbitrary: s) (simp_all add: chip_revealed_run_timer)

lemma chip_revealed_run_timers: "chip_revealed s cid i \<Longrightarrow> chip_revealed (run_timers s) cid i"
proof -
  assume "chip_revealed s cid i"
  then have "chip_revealed (s\<lparr>timers := []\<rparr>) cid i"
    by (simp add: chip_revealed_def card_at_def)
  then show ?thesis unfolding run_timers_def by (rule chip_revealed_fold_timers)
qed

lemma elements_revealAllChips: "elements (revealAllChips k s) = elements s"
  by (simp add: revealAllChips_def Let_def split: option.splits)

lemma chip_revealed_revealAllChips: "chip_revealed (revealAllChips k s) cid i = chip_revealed s cid i"
  by (simp add: chip_revealed_def card_at_def elements_revealAllChips)

lemma chip_revealed_toggle:
  "chip_revealed (toggleChip (Some (c, j)) s) cid i =
     (if c = cid \<and> j = i \<and> card_at s cid i \<noteq> None then \<not> chip_revealed s cid i
      else chip_revealed s cid i)"
  by (auto simp: toggleChip_def chip_revealed_def card_at_update_card toggle_card_def Let_def
      split: option.splits)

lemma chip_revealed_showHint: "chip_revealed s cid i \<Longrightarrow> chip_revealed (showHint l s) cid i"
proof (cases "elements s (l @ ''Chips'')")
  case None
  assume "chip_revealed s cid i"
  then show ?thesis using None by (simp add: showHint_def)
next
  case (Some chipContainer)
  assume r: "chip_revealed s cid i"
  show ?thesis
  proof (cases "chip_cards chipContainer")
    case Nil
    then show ?thesis using Some r by (simp add: showHint_def)
  next
    case (Cons firstCard others)
    show ?thesis
    proof (cases "revealed firstCard")
      case True
      then show ?thesis using Some Cons r by (simp add: showHint_def)
    next
      case False
      have "chip_revealed s (l @ ''Chips'') 0 = revealed firstCard"
        using Some Cons by (simp add: chip_revealed_def card_at_def)
      then have "\<not> (l @ ''Chips'' = cid \<and> 0 = i)"
        using False r by blast
      then show ?thesis using Some Cons False r by (auto simp: showHint_def chip_revealed_toggle)
    qed
  qed
qed

text \<open>
  Claim C7 says that \<^verbatim>\<open>toggleChip\<close> on a chip that is already revealed leaves it
  revealed, and that no operation takes a chip from revealed back to hidden. On the example
  page, a first \<^verbatim>\<open>toggleChip\<close> reveals the first chip and a second one hides it again.
\<close>

theorem toggleChip_hides_counterexample:
  "chip_revealed (toggleChip (Some (''layer4Chips'', 0)) (layer4_page JSNull)) ''layer4Chips'' 0 \<and>
   \<not> chip_revealed
       (toggleChip (Some (''layer4Chips'', 0)) (toggleChip (Some (''layer4Chips'', 0)) (layer4_page JSNull)))
       ''layer4Chips'' 0"
  by code_simp

text \<open>
  Claim C7, amended. A chip that is revealed stays revealed under \<^verbatim>\<open>revealAllChips\<close>
  (when it is called and when its scheduled callbacks, or any other pending ones, have fired)
  and under \<^verbatim>\<open>showHint\<close>: these operations never take a chip from revealed to hidden.
  \<^verbatim>\<open>toggleChip\<close> flips the chip: on a revealed chip it makes it hidden.
\<close>

theorem reveal_paths_keep_revealed:
  assumes "chip_revealed s cid i"
  shows "chip_revealed (revealAllChips k s) cid i \<and>
         chip_revealed (run_timers (revealAllChips k s)) cid i \<and>
         chip_revealed (showHint l s) cid i \<and>
         chip_revealed (run_timers s) cid i \<and>
         \<not> chip_revealed (toggleChip (Some (cid, i)) s) cid i"
proof -
  have a: "chip_revealed (revealAllChips k s) cid i"
    using assms by (simp add: chip_revealed_revealAllChips)
  have b: "chip_revealed (run_timers (revealAllChips k s)) cid i"
    using a by (rule chip_revealed_run_timers)
  have c: "chip_revealed (showHint l s) cid i"
    using assms by (rule chip_revealed_showHint)
  have d: "chip_revealed (run_timers s) cid i"
    using assms by (rule chip_revealed_run_timers)
  have "card_at s cid i \<noteq> None"
    using assms by (cases "card_at s cid i") (simp_all add: chip_revealed_def)
  then have e: "\<not> chip_revealed (toggleChip (Some (cid, i)) s) cid i"
    using assms by (simp add: chip_revealed_toggle)
  show ?thesis using a b c d e by blast
qed

theorem reveal_paths_keep_revealed_witness:
  "chip_revealed (toggleChip (Some (''layer4Chips'', 0)) (layer4_page JSNull)) ''layer4Chips'' 0 \<and>
   chip_revealed (run_timers (revealAllChips ''layer4Chips''
       (toggleChip (Some (''layer4Chips'', 0)) (layer4_page JSNull)))) ''layer4Chips'' 0 \<and>
   chip_revealed (showHint ''layer4''
       (toggleChip (Some (''layer4Chips'', 0)) (layer4_page JSNull))) ''layer4Chips'' 0"
proof -
  have h: "chip_revealed (toggleChip (Some (''layer4Chips'', 0)) (layer4_page JSNull)) ''layer4Chips'' 0"
    by code_simp
  show ?thesis
    using reveal_paths_keep_revealed [OF h, of "''layer4Chips''" "''layer4''"] h by blast
qed

lemma card_at_run_timer_None: "card_at (run_timer t s) cid i = None \<longleftrightarrow> card_at s cid i = None"
  by (cases t) (simp add: run_timer_def card_at_update_card)

lemma run_timer_reveals:
  "card_at s cid i \<noteq> None \<Longrightarrow> chip_revealed (run_timer (d, cid, i) s) cid i"
  by (auto simp: run_timer_def chip_revealed_def card_at_update_card reveal_card_def
      split: option.splits)

lemma fold_timers_reveals:
  "(d, cid, i) \<in> set ts \<Longrightarrow> card_at s cid i \<noteq> None \<Longrightarrow>
   chip_revealed (foldl (\<lambda>s' t. run_timer t s') s ts) cid i"
proof (induction ts arbitrary: s)
  case Nil
  then show ?case by simp
next
  case (Cons t ts)
  show ?case
  proof (cases "t = (d, cid, i)")
    case True
    then have "chip_revealed (run_timer t s) cid i"
      using Cons.prems(2) by (simp add: run_timer_reveals)
    then show ?thesis by (simp add: chip_revealed_fold_timers)
  next
    case False
    then have "(d, cid, i) \<in> set ts" using Cons.prems(1) by simp
    moreover have "card_at (run_timer t s) cid i \<noteq> None"
      using Cons.prems(2) by (simp add: card_at_run_timer_None)
    ultimately show ?thesis using Cons.IH by simp
  qed
qed

lemma revealAllChips_reveals_all:
  assumes "elements s k = Some container" and "i < length (chip_cards container)"
  shows "chip_revealed (run_timers (revealAllChips k s)) k i"
proof (cases "revealed (chip_cards container ! i)")
  case True
  then have "chip_revealed s k i" using assms by (simp add: chip_revealed_def card_at_def)
  then have "chip_revealed (revealAllChips k s) k i" by (simp add: chip_revealed_revealAllChips)
  then show ?thesis by (rule chip_revealed_run_timers)
next
  case False
  let ?s' = "revealAllChips k s"
  let ?d = "if prefers_reduced_motion s then 0 else i * 60"
  have "(?d, k, i) \<in> set (timers ?s')"
    using assms False by (auto simp: revealAllChips_def Let_def)
  then have mem: "(?d, k, i) \<in> set (sort_key fst (timers ?s'))" by simp
  have "card_at (?s'\<lparr>timers := []\<rparr>) k i \<noteq> None"
    using assms by (simp add: card_at_def elements_revealAllChips)
  then show ?thesis unfolding run_timers_def using mem by (rule fold_timers_reveals [rotated])
qed


section \<open>Missing binding targets\<close>

lemma checkGuess_missing:
  "elements s (l @ ''Guess'') = None \<or> elements s (l @ ''Feedback'') = None \<Longrightarrow> checkGuess l e s = s"
  by (auto simp: checkGuess_def split: option.splits)

lemma revealAllChips_missing: "elements s k = None \<Longrightarrow> revealAllChips k s = s"
  by (simp add: revealAllChips_def)

lemma getDecodedText_missing: "elements s k = None \<Longrightarrow> getDecodedText k s = []"
  by (simp add: getDecodedText_def)

lemma showHint_missing: "elements s (l @ ''Chips'') = None \<Longrightarrow> showHint l s = s"
  by (simp add: showHint_def)

lemma initializePuzzle_missing:
  "elements s (l @ ''Chips'') = None \<Longrightarrow>
   initializePuzzle l e s = s\<lparr>console := console s @ [''Puzzle container not found for '' @ l]\<rparr>"
  by (simp add: initializePuzzle_def Let_def)

text \<open>
  Claim C8. An operation of the controller whose binding target is missing returns without
  changing the page: \<^verbatim>\<open>checkGuess\<close> without the guess input or the feedback region,
  \<^verbatim>\<open>revealAllChips\<close>, \<^verbatim>\<open>getDecodedText\<close>, \<^verbatim>\<open>showHint\<close> and
  \<^verbatim>\<open>initializePuzzle\<close> without the chip container, \<^verbatim>\<open>toggleChip\<close> without a card.
  Elements, timers and listeners stay as they are; the only trace is the warning that
  \<^verbatim>\<open>initializePuzzle\<close> writes to the console. None of these paths throws.
\<close>

theorem missing_target_no_op:
  "(elements s (l @ ''Guess'') = None \<or> elements s (l @ ''Feedback'') = None \<longrightarrow>
      checkGuess l e s = s) \<and>
   (elements s k = None \<longrightarrow> revealAllChips k s = s \<and> getDecodedText k s = []) \<and>
   (elements s (l @ ''Chips'') = None \<longrightarrow>
      showHint l s = s \<and>
      initializePuzzle l e s = s\<lparr>console := console s @ [''Puzzle container not found for '' @ l]\<rparr>) \<and>
   toggleChip None s = s"
  using checkGuess_missing [of s l e] revealAllChips_missing [of s k] getDecodedText_missing [of s k]
    showHint_missing [of s l] initializePuzzle_missing [of s l e]
  by (simp add: toggleChip_def)

theorem missing_target_no_op_witness:
  "elements (layer4_page JSNull) (''layer5'' @ ''Guess'') = None \<and>
   elements (layer4_page JSNull) ''layer5Chips'' = None \<and>
   elements (layer4_page JSNull) (''layer5'' @ ''Chips'') = None \<and>
   checkGuess ''layer5'' ''SESSION'' (layer4_page JSNull) = layer4_page JSNull \<and>
   revealAllChips ''layer5Chips'' (layer4_page JSNull) = layer4_page JSNull \<and>
   showHint ''layer5'' (layer4_page JSNull) = layer4_page JSNull \<and>
   initializePuzzle ''layer5'' ''SESSION'' (layer4_page JSNull) =
     (layer4_page JSNull)\<lparr>console := console (layer4_page JSNull) @
        [''Puzzle container not found for '' @ ''layer5'']\<rparr>"
proof -
  have h1: "elements (layer4_page JSNull) (''layer5'' @ ''Guess'') = None"
    by (simp add: layer4_page_def)
  have h2: "elements (layer4_page JSNull) ''layer5Chips'' = None"
    by (simp add: layer4_page_def)
  have h3: "elements (layer4_page JSNull) (''layer5'' @ ''Chips'') = None"
    by (simp add: layer4_page_def)
  show ?thesis
    using missing_target_no_op [of "layer4_page JSNull" "''layer5''" "''SESSION''" "''layer5Chips''"]
      h1 h2 h3 by blast
qed

end
